theory Spec2Isabelle
  imports Main "HOL-Library.Sublist"
begin

section \<open>Locale-aware navigation of the TanStack Start / Intlayer template\<close>

text \<open>
  The repository consists of the root route \<^verbatim>\<open>src/routes/index.tsx\<close> and of the
  components printed in its README: \<^verbatim>\<open>LocalizedLink\<close>, \<^verbatim>\<open>useLocalizedNavigate\<close> and
  \<^verbatim>\<open>LocaleSwitcher\<close>. Locales and paths are JavaScript strings. The functions
  imported from the packages \<^verbatim>\<open>intlayer\<close>, \<^verbatim>\<open>react-intlayer\<close> and
  \<^verbatim>\<open>@tanstack/react-router\<close> are not part of the repository: each one is an
  argument of the function that calls it, named as in the source. What the browser
  and the routing framework do with a navigation, and the contract that the spec
  gives for the path rewriting of \<^verbatim>\<open>intlayer\<close>, are given by definitions of their own,
  each marked as modelled from the spec.
\<close>

type_synonym Locale = string

subsection \<open>The external-URL test\<close>

text \<open>
  Both wrappers declare the same closure
  \<^verbatim>\<open>const isExternal = (to: string) => /^(https?:)?\/\//.test(to)\<close>.
  The regular expression is anchored at the start of the string: an optional scheme
  \<^verbatim>\<open>http:\<close> or \<^verbatim>\<open>https:\<close>, then two slashes. \<open>scheme_rest\<close> is the group
  \<^verbatim>\<open>(https?:)\<close>: it returns what follows the scheme when the string starts with one.
\<close>

fun scheme_rest :: "string \<Rightarrow> string option" where
  "scheme_rest (a # b # c # d # rest) =
     (if [a, b, c, d] = ''http'' then
        (case rest of
           e # rest' \<Rightarrow>
             if e = CHR '':'' then Some rest'
             else if e = CHR ''s'' then
               (case rest' of
                  f # rest'' \<Rightarrow> if f = CHR '':'' then Some rest'' else None
                | [] \<Rightarrow> None)
             else None
         | [] \<Rightarrow> None)
      else None)"
| "scheme_rest _ = None"

definition external_pattern :: "string \<Rightarrow> bool" where
  "external_pattern s =
     (prefix ''//'' s \<or> (case scheme_rest s of Some r \<Rightarrow> prefix ''//'' r | None \<Rightarrow> False))"

subsection \<open>LocalizedLink\<close>

text \<open>
  \<^verbatim>\<open>type LocalizedLinkProps = { to: string } & Omit<LinkProps, 'to'>\<close> and
  \<^verbatim>\<open>type LocalizedNavigateOptions = { to: string } & Omit<NavigateOptions, 'to'>\<close>:
  an object with the string field \<open>to\<close>; all its other fields are the extension
  \<open>more\<close> of the record, of any type. The component returns
  \<^verbatim>\<open><Link {...props} to={to} />\<close>; its model returns the props handed to \<^verbatim>\<open>Link\<close>.
\<close>

record to_props =
  to :: string

type_synonym 'r LocalizedLinkProps = "'r to_props_scheme"
type_synonym 'r LocalizedNavigateOptions = "'r to_props_scheme"

definition LocalizedLink_isExternal :: "string \<Rightarrow> bool" where
  "LocalizedLink_isExternal t = external_pattern t"

definition LocalizedLink ::
    "(string \<Rightarrow> Locale \<Rightarrow> string) \<Rightarrow> Locale \<Rightarrow> 'r LocalizedLinkProps \<Rightarrow> 'r LocalizedLinkProps" where
  "LocalizedLink getLocalizedUrl locale props =
     (let t = (if LocalizedLink_isExternal (to props) then to props
               else getLocalizedUrl (to props) locale)
      in props\<lparr>to := t\<rparr>)"

subsection \<open>useLocalizedNavigate\<close>

text \<open>
  The hook returns \<^verbatim>\<open>localizedNavigate\<close>, which calls the router's \<^verbatim>\<open>navigate\<close> on
  \<^verbatim>\<open>{ ...options, to }\<close>. \<open>navigate\<close> is the function obtained from \<^verbatim>\<open>useNavigate()\<close>,
  a transformer of the router's state \<open>'s\<close>; \<open>localizedNavigate_argument\<close> is the
  object literal it receives.
\<close>

definition useLocalizedNavigate_isExternal :: "string \<Rightarrow> bool" where
  "useLocalizedNavigate_isExternal t = external_pattern t"

definition localizedNavigate_argument ::
    "(string \<Rightarrow> Locale \<Rightarrow> string) \<Rightarrow> Locale \<Rightarrow> 'r LocalizedNavigateOptions
       \<Rightarrow> 'r LocalizedNavigateOptions" where
  "localizedNavigate_argument getLocalizedUrl locale options =
     (let t = (if useLocalizedNavigate_isExternal (to options) then to options
               else getLocalizedUrl (to options) locale)
      in options\<lparr>to := t\<rparr>)"

definition localizedNavigate ::
    "('r LocalizedNavigateOptions \<Rightarrow> 's \<Rightarrow> 's) \<Rightarrow> (string \<Rightarrow> Locale \<Rightarrow> string) \<Rightarrow> Locale
       \<Rightarrow> 'r LocalizedNavigateOptions \<Rightarrow> 's \<Rightarrow> 's" where
  "localizedNavigate navigate getLocalizedUrl locale options =
     navigate (localizedNavigate_argument getLocalizedUrl locale options)"

subsection \<open>The session history\<close>

text \<open>
  The history of the browser tab: the path shown (\<open>current\<close>) and the entries that
  back-navigation returns to (\<open>back_entries\<close>, the most recent first). It belongs to the
  browser and the routing framework, not to the repository.
\<close>

record history =
  back_entries :: "string list"
  current :: string

text \<open>
  Modelled from the spec: a navigation of the routing framework or the browser. Section
  4.2 of the spec calls a replace-navigation one that retains no history entry: it
  overwrites the current entry, while an ordinary navigation keeps the current entry
  for back-navigation.
\<close>

definition history_navigate :: "bool \<Rightarrow> string \<Rightarrow> history \<Rightarrow> history" where
  "history_navigate replace_flag target h =
     (if replace_flag then h\<lparr>current := target\<rparr>
      else \<lparr>back_entries = current h # back_entries h, current = target\<rparr>)"

text \<open>
  Modelled from the spec: back-navigation of the browser, which shows the most recent
  retained entry again and does nothing when there is none.
\<close>

definition history_back :: "history \<Rightarrow> history" where
  "history_back h =
     (case back_entries h of
        [] \<Rightarrow> h
      | p # ps \<Rightarrow> \<lparr>back_entries = ps, current = p\<rparr>)"

text \<open>
  Modelled from the spec: the routing framework's resolution of a navigation target
  against the current path. A target that starts with a slash is absolute; any other
  target is a segment below the current path, so that from the unprefixed root \<^verbatim>\<open>/\<close>
  the target \<^verbatim>\<open>en\<close> is \<^verbatim>\<open>/en\<close>, the \<^verbatim>\<open>/{locale}\<close> of section 4.2.
\<close>

definition resolvePath :: "string \<Rightarrow> string \<Rightarrow> string" where
  "resolvePath base target =
     (if prefix ''/'' target then target
      else if suffix ''/'' base then base @ target
      else base @ ''/'' @ target)"

subsection \<open>The root route\<close>

text \<open>
  \<^verbatim>\<open>src/routes/index.tsx\<close>, registered for the route \<^verbatim>\<open>/\<close>:
  \<^verbatim>\<open>function RouteComponent() { const { locale } = useLocale(); return <Navigate replace to={locale} /> }\<close>.
  The locale read from \<^verbatim>\<open>useLocale()\<close> is the argument; the result is the props of
  the \<^verbatim>\<open>Navigate\<close> element that the component returns.
\<close>

record Navigate_props = to_props +
  replace :: bool

definition RouteComponent :: "Locale \<Rightarrow> Navigate_props" where
  "RouteComponent locale = \<lparr>to = locale, replace = True\<rparr>"

text \<open>
  Modelled from the spec: what the routing framework does with a rendered \<^verbatim>\<open>Navigate\<close>
  element, the redirect primitive of section 6: a navigation to the element's target,
  resolved against the current path, that replaces the current entry when the
  element carries \<^verbatim>\<open>replace\<close>.
\<close>

definition Navigate_run :: "Navigate_props \<Rightarrow> history \<Rightarrow> history" where
  "Navigate_run props h =
     history_navigate (replace props) (resolvePath (current h) (to props)) h"

text \<open>
  \<^verbatim>\<open>export const Route = createFileRoute('/')({ component: RouteComponent })\<close> registers
  the component for the path \<^verbatim>\<open>/\<close>. Modelled from the spec: the routing framework
  renders the component of the route whenever the location is that path, however it
  was reached, and runs the \<^verbatim>\<open>Navigate\<close> element that the component returns
  (section 4.2: the transition is unconditional and immediate).
\<close>

definition route_render :: "Locale \<Rightarrow> history \<Rightarrow> history" where
  "route_render locale h =
     (if current h = ''/'' then Navigate_run (RouteComponent locale) h else h)"

text \<open>
  Modelled from the spec: a back-navigation in the running application, the browser's
  step back followed by the rendering of the route at the entry it arrives at.
\<close>

definition back_navigation :: "Locale \<Rightarrow> history \<Rightarrow> history" where
  "back_navigation locale h = route_render locale (history_back h)"

subsection \<open>LocaleSwitcher\<close>

text \<open>
  Modelled from the spec: \<^verbatim>\<open>location.replace\<close> of the browser, a replace-navigation
  to the URL it is given.
\<close>

definition location_replace :: "string \<Rightarrow> history \<Rightarrow> history" where
  "location_replace url h = history_navigate True url h"

text \<open>
  \<^verbatim>\<open>onLocaleChange: (newLocale) => { const pathWithLocale =
  getLocalizedUrl(pathname + searchStr, newLocale); location.replace(pathWithLocale) }\<close>,
  with \<^verbatim>\<open>pathname\<close> and \<^verbatim>\<open>searchStr\<close> read from \<^verbatim>\<open>useLocation()\<close>.
\<close>

definition onLocaleChange ::
    "(string \<Rightarrow> Locale \<Rightarrow> string) \<Rightarrow> string \<Rightarrow> string \<Rightarrow> Locale \<Rightarrow> history \<Rightarrow> history" where
  "onLocaleChange getLocalizedUrl pathname searchStr newLocale h =
     (let pathWithLocale = getLocalizedUrl (pathname @ searchStr) newLocale
      in location_replace pathWithLocale h)"

text \<open>
  The rendered \<^verbatim>\<open>select\<close>: one \<^verbatim>\<open>option\<close> for each item of \<^verbatim>\<open>availableLocales\<close>,
  and the \<^verbatim>\<open>value\<close> of the select bound to the active locale. \<^verbatim>\<open>Locales.ENGLISH\<close>
  is the string \<^verbatim>\<open>en\<close>. The change handler of the select hands the chosen value to
  \<^verbatim>\<open>setLocale\<close> as it is.
\<close>

record option_element =
  dir :: string
  key :: string
  lang :: string
  "value" :: string
  children :: string

record select_element =
  aria_label :: string
  select_value :: string
  select_options :: "option_element list"

definition Locales_ENGLISH :: Locale where
  "Locales_ENGLISH = ''en''"

definition LocaleSwitcher ::
    "(Locale \<Rightarrow> string) \<Rightarrow> (Locale \<Rightarrow> Locale \<Rightarrow> string) \<Rightarrow> string \<Rightarrow> Locale list \<Rightarrow> Locale
       \<Rightarrow> select_element" where
  "LocaleSwitcher getHTMLTextDir getLocaleName label availableLocales locale =
     \<lparr>aria_label = label,
      select_value = locale,
      select_options =
        map (\<lambda>localeItem.
               \<lparr>dir = getHTMLTextDir localeItem,
                key = localeItem,
                lang = localeItem,
                value = localeItem,
                children = getLocaleName localeItem locale @ '' ('' @
                           getLocaleName localeItem Locales_ENGLISH @ '')''\<rparr>)
            availableLocales\<rparr>"

definition LocaleSwitcher_onChange :: "(string \<Rightarrow> 's \<Rightarrow> 's) \<Rightarrow> string \<Rightarrow> 's \<Rightarrow> 's" where
  "LocaleSwitcher_onChange setLocale target_value = setLocale target_value"

text \<open>
  Modelled from the spec: the option that the host rendering framework shows as
  selected in a select whose value is bound, the first option carrying that value
  (\<open>None\<close> when no option carries it).
\<close>

definition selected_option :: "select_element \<Rightarrow> option_element option" where
  "selected_option s = List.find (\<lambda>opt. value opt = select_value s) (select_options s)"

subsection \<open>The configured locales and the rewriting of a path\<close>

text \<open>
  \<^verbatim>\<open>intlayer.config.ts\<close> of the README: \<^verbatim>\<open>defaultLocale: Locales.ENGLISH\<close> and
  \<^verbatim>\<open>locales: [Locales.ENGLISH, Locales.FRENCH, Locales.SPANISH]\<close>, the identifiers
  \<^verbatim>\<open>en\<close>, \<^verbatim>\<open>fr\<close> and \<^verbatim>\<open>es\<close> that key the content files.
\<close>

definition locales :: "Locale list" where
  "locales = [''en'', ''fr'', ''es'']"

definition defaultLocale :: Locale where
  "defaultLocale = ''en''"

text \<open>
  Modelled from the spec: the locale resolver of the i18n library, whose code is not in
  the repository. Sections 4.1 and 7: a locale outside the supported set falls back to
  the configured default.
\<close>

definition resolved_locale :: "string \<Rightarrow> Locale" where
  "resolved_locale l = (if l \<in> set locales then l else defaultLocale)"

text \<open>
  Modelled from the spec: the part of the library's path rewriting that drops a locale
  prefix. The glossary calls a path locale-prefixed when its first segment is a locale
  identifier; a segment ends at the end of the path or before \<^verbatim>\<open>/\<close>, \<^verbatim>\<open>?\<close> or \<^verbatim>\<open>#\<close>.
  The first argument is the list of locales still to be tried.
\<close>

fun without_locale :: "Locale list \<Rightarrow> string \<Rightarrow> string" where
  "without_locale [] path = path"
| "without_locale (l # ls) path =
     (let rest = drop (length (''/'' @ l)) path
      in if prefix (''/'' @ l) path \<and>
            (rest = [] \<or> hd rest \<in> {CHR ''/'', CHR ''?'', CHR ''#''})
         then rest
         else without_locale ls path)"

text \<open>
  Modelled from the spec: \<^verbatim>\<open>localize(path, locale)\<close> of section 4.1, the contract of the
  function that the source imports from \<^verbatim>\<open>intlayer\<close> as \<^verbatim>\<open>getLocalizedUrl\<close> and whose
  code is not in the repository. An external URL is returned unchanged. Any other
  path, already locale-prefixed or not, is rewritten to carry exactly one locale
  prefix, that of the resolved locale, in front of the path it had behind its own
  prefix.
\<close>

definition localize :: "string \<Rightarrow> Locale \<Rightarrow> string" where
  "localize path locale =
     (if external_pattern path then path
      else let rest = without_locale locales path
           in ''/'' @ resolved_locale locale @ (if prefix ''/'' rest then rest else ''/'' @ rest))"

section \<open>Properties\<close>

subsection \<open>The external-URL test\<close>

text \<open>The regular expression accepts exactly the strings that start with
  \<^verbatim>\<open>//\<close>, \<^verbatim>\<open>http://\<close> or \<^verbatim>\<open>https://\<close>; the test is case sensitive.\<close>

lemma external_pattern_iff:
  "external_pattern s \<longleftrightarrow>
     prefix ''//'' s \<or> prefix ''http://'' s \<or> prefix ''https://'' s"
  unfolding external_pattern_def
  by (cases s rule: scheme_rest.cases)
     (auto split: list.splits option.splits if_splits simp: prefix_def)

lemma external_pattern_examples:
  "external_pattern ''https://intlayer.org''"
  "external_pattern ''http://localhost:3000''"
  "external_pattern ''//cdn.example.com/a.js''"
  "\<not> external_pattern ''/about''"
  "\<not> external_pattern ''HTTP://example.com''"
  "\<not> external_pattern ''https:/about''"
  by (simp_all add: external_pattern_def)

subsection \<open>The two wrappers\<close>

text \<open>
  Claim C1. A target that matches the external-URL pattern is handed on as it is, by
  \<open>LocalizedLink\<close> and by the function that \<open>useLocalizedNavigate\<close> returns, for every
  locale and whatever \<open>getLocalizedUrl\<close> computes.
\<close>

theorem external_url_unchanged:
  "external_pattern U \<Longrightarrow>
     to (LocalizedLink getLocalizedUrl L (props\<lparr>to := U\<rparr>)) = U \<and>
     to (localizedNavigate_argument getLocalizedUrl L (options\<lparr>to := U\<rparr>)) = U"
  by (simp add: LocalizedLink_def LocalizedLink_isExternal_def
      localizedNavigate_argument_def useLocalizedNavigate_isExternal_def)

theorem external_url_unchanged_witness:
  "external_pattern ''https://intlayer.org/doc'' \<and>
   to (LocalizedLink (\<lambda>p l. ''/'' @ l @ p) ''fr'' \<lparr>to = ''https://intlayer.org/doc''\<rparr>)
     = ''https://intlayer.org/doc'' \<and>
   to (localizedNavigate_argument (\<lambda>p l. ''/'' @ l @ p) ''fr''
         \<lparr>to = ''https://intlayer.org/doc''\<rparr>)
     = ''https://intlayer.org/doc''"
  using external_url_unchanged [of "''https://intlayer.org/doc''" "\<lambda>p l. ''/'' @ l @ p" "''fr''"
      "\<lparr>to = ''/''\<rparr>" "\<lparr>to = ''/''\<rparr>"]
  by (simp add: external_pattern_def)

text \<open>
  Claim C9. For every target and every locale the two wrappers resolve the same
  destination: their \<open>isExternal\<close> closures agree and both hand an internal target to
  the same \<open>getLocalizedUrl\<close>.
\<close>

theorem wrappers_same_destination:
  "to (LocalizedLink getLocalizedUrl L (props\<lparr>to := t\<rparr>)) =
   to (localizedNavigate_argument getLocalizedUrl L (options\<lparr>to := t\<rparr>))"
  by (simp add: LocalizedLink_def LocalizedLink_isExternal_def
      localizedNavigate_argument_def useLocalizedNavigate_isExternal_def)

text \<open>
  Claim C10. The function returned by \<open>useLocalizedNavigate\<close> calls \<open>navigate\<close> on an
  object whose fields other than \<open>to\<close> are those of its argument, and \<open>LocalizedLink\<close>
  hands to \<open>Link\<close> props whose fields other than \<open>to\<close> are those it received.
\<close>

theorem other_fields_forwarded:
  "localizedNavigate navigate getLocalizedUrl L options =
     navigate (localizedNavigate_argument getLocalizedUrl L options) \<and>
   to_props.more (localizedNavigate_argument getLocalizedUrl L options) = to_props.more options \<and>
   to_props.more (LocalizedLink getLocalizedUrl L props) = to_props.more props"
  by (simp add: LocalizedLink_def localizedNavigate_def localizedNavigate_argument_def Let_def)

text \<open>
  Whatever \<open>getLocalizedUrl\<close> is, the wrappers are idempotent on a path on which it
  is idempotent itself; this is needed only when neither the path nor its rewriting
  is external.
\<close>

lemma wrappers_idempotent_if:
  assumes "\<not> external_pattern p \<Longrightarrow> \<not> external_pattern (getLocalizedUrl p L) \<Longrightarrow>
             getLocalizedUrl (getLocalizedUrl p L) L = getLocalizedUrl p L"
  shows "LocalizedLink getLocalizedUrl L (LocalizedLink getLocalizedUrl L (props\<lparr>to := p\<rparr>)) =
           LocalizedLink getLocalizedUrl L (props\<lparr>to := p\<rparr>) \<and>
         localizedNavigate_argument getLocalizedUrl L
             (localizedNavigate_argument getLocalizedUrl L (options\<lparr>to := p\<rparr>)) =
           localizedNavigate_argument getLocalizedUrl L (options\<lparr>to := p\<rparr>)"
  using assms
  by (auto simp add: LocalizedLink_def LocalizedLink_isExternal_def
      localizedNavigate_argument_def useLocalizedNavigate_isExternal_def)

subsection \<open>The rewriting of a path\<close>

lemma resolved_locale_cases:
  "resolved_locale L = ''en'' \<or> resolved_locale L = ''fr'' \<or> resolved_locale L = ''es''"
  by (auto simp: resolved_locale_def locales_def defaultLocale_def)

lemma resolved_locale_supported: "L \<in> set locales \<Longrightarrow> resolved_locale L = L"
  by (simp add: resolved_locale_def)

text \<open>A path behind a supported locale prefix keeps all that follows the prefix.\<close>

lemma localize_prefixed:
  "localize (''/'' @ resolved_locale x @ ''/'' @ r) y = ''/'' @ resolved_locale y @ ''/'' @ r"
  using resolved_locale_cases [of x]
  by (auto simp: localize_def locales_def external_pattern_def)

text \<open>Every rewritten internal path is the locale prefix, a slash and a remainder.\<close>

lemma localize_form:
  "\<not> external_pattern p \<Longrightarrow> \<exists>r. localize p L = ''/'' @ resolved_locale L @ ''/'' @ r"
  by (cases "without_locale locales p") (auto simp: localize_def Let_def)

lemma localize_twice: "localize (localize p L) L = localize p L"
proof (cases "external_pattern p")
  case True
  then show ?thesis by (simp add: localize_def)
next
  case False
  then obtain r where r: "localize p L = ''/'' @ resolved_locale L @ ''/'' @ r"
    using localize_form by blast
  show ?thesis
    unfolding r using localize_prefixed [of L r L] by simp
qed

text \<open>
  Claim C2. With the path rewriting of the spec in the place of \<open>getLocalizedUrl\<close>,
  localizing twice with the same locale gives what localizing once gives: for every
  path and every locale, in \<open>LocalizedLink\<close>, in the function that
  \<open>useLocalizedNavigate\<close> returns, and for the rewriting alone.
\<close>

theorem localize_idempotent:
  "LocalizedLink localize L (LocalizedLink localize L (props\<lparr>to := p\<rparr>)) =
     LocalizedLink localize L (props\<lparr>to := p\<rparr>) \<and>
   localizedNavigate_argument localize L
       (localizedNavigate_argument localize L (options\<lparr>to := p\<rparr>)) =
     localizedNavigate_argument localize L (options\<lparr>to := p\<rparr>) \<and>
   localize (localize p L) L = localize p L"
  using wrappers_idempotent_if [of p localize L props options] localize_twice [of p L]
  by simp

text \<open>
  Claim C5. For a supported locale \<open>L\<close> and a path \<open>P\<close> that is not an external URL,
  the rewriting of the spec, and with it the target that \<open>LocalizedLink\<close> and
  \<open>useLocalizedNavigate\<close> hand on, begins with \<^verbatim>\<open>/L/\<close>.
\<close>

theorem localized_begins_with_locale:
  assumes "L \<in> set locales" and "\<not> external_pattern P"
  shows "prefix (''/'' @ L @ ''/'') (localize P L) \<and>
         prefix (''/'' @ L @ ''/'') (to (LocalizedLink localize L (props\<lparr>to := P\<rparr>))) \<and>
         prefix (''/'' @ L @ ''/'')
           (to (localizedNavigate_argument localize L (options\<lparr>to := P\<rparr>)))"
proof -
  from assms(2) obtain r where "localize P L = ''/'' @ resolved_locale L @ ''/'' @ r"
    using localize_form by blast
  with assms(1) have "localize P L = (''/'' @ L @ ''/'') @ r"
    by (simp add: resolved_locale_supported)
  then have "prefix (''/'' @ L @ ''/'') (localize P L)"
    by (metis prefixI)
  with assms(2) show ?thesis
    by (simp add: LocalizedLink_def LocalizedLink_isExternal_def
        localizedNavigate_argument_def useLocalizedNavigate_isExternal_def)
qed

theorem localized_begins_with_locale_witness:
  "''fr'' \<in> set locales \<and> \<not> external_pattern ''/about'' \<and>
   prefix ''/fr/'' (localize ''/about'' ''fr'') \<and>
   prefix ''/fr/'' (to (LocalizedLink localize ''fr'' \<lparr>to = ''/about''\<rparr>)) \<and>
   localize ''/about'' ''fr'' = ''/fr/about''"
  using localized_begins_with_locale [of "''fr''" "''/about''" "\<lparr>to = ''/''\<rparr>" "\<lparr>to = ''/''\<rparr>"]
  by (simp add: locales_def external_pattern_def localize_def resolved_locale_def)

subsection \<open>The root route\<close>

text \<open>
  Claim C3. A request at the unprefixed root \<^verbatim>\<open>/\<close> with the resolved locale \<^verbatim>\<open>en\<close>:
  the root route component navigates to \<^verbatim>\<open>/en\<close>, whatever the earlier entries of the
  history are.
\<close>

theorem root_redirects_to_en:
  "current (Navigate_run (RouteComponent ''en'') \<lparr>back_entries = es, current = ''/''\<rparr>) = ''/en''"
  by (simp add: Navigate_run_def RouteComponent_def history_navigate_def resolvePath_def)

lemma route_render_leaves_root:
  "current (route_render (resolved_locale l) h) \<noteq> ''/''"
  using resolved_locale_cases [of l]
  by (auto simp: route_render_def Navigate_run_def RouteComponent_def history_navigate_def
      resolvePath_def)

lemma back_navigation_leaves_root:
  "0 < n \<Longrightarrow> current ((back_navigation (resolved_locale l) ^^ n) h) \<noteq> ''/''"
  by (cases n) (simp_all add: back_navigation_def route_render_leaves_root)

text \<open>
  Claim C7. The root route component asks for a replace-navigation for every locale,
  with no condition, and running its \<^verbatim>\<open>Navigate\<close> element leaves the entries that
  back-navigation returns to as they were, in every history: no entry for the root
  is retained. After the redirect at the unprefixed root, whatever the earlier
  entries are and whatever value the locale was resolved from, no number of
  back-navigations ends on the root path.
\<close>

theorem root_redirect_replaces:
  "replace (RouteComponent locale) \<and>
   back_entries (Navigate_run (RouteComponent locale) h) = back_entries h \<and>
   current ((back_navigation (resolved_locale l) ^^ n)
      (Navigate_run (RouteComponent (resolved_locale l)) \<lparr>back_entries = es, current = ''/''\<rparr>))
     \<noteq> ''/''"
proof -
  let ?L = "resolved_locale l"
  let ?h = "\<lparr>back_entries = es, current = ''/''\<rparr>"
  have redirect: "Navigate_run (RouteComponent ?L) ?h = route_render ?L ?h"
    by (simp add: route_render_def)
  have "current ((back_navigation ?L ^^ n) (route_render ?L ?h)) \<noteq> ''/''"
  proof (cases "n = 0")
    case True
    then show ?thesis by (simp add: route_render_leaves_root)
  next
    case False
    then show ?thesis by (simp add: back_navigation_leaves_root)
  qed
  with redirect show ?thesis
    by (simp add: RouteComponent_def Navigate_run_def history_navigate_def)
qed

subsection \<open>The locale switcher\<close>

text \<open>
  Claim C4. With the location at pathname \<open>P\<close> and query string \<open>Q\<close>, the change handler
  for the new locale \<open>L'\<close> replaces the location by what \<open>getLocalizedUrl\<close> returns for
  \<open>P\<close> followed by \<open>Q\<close> and \<open>L'\<close>, and adds no history entry. With the path rewriting
  of the spec, a location below a locale prefix goes to the same path and query string
  below the prefix of the new locale, so \<^verbatim>\<open>/en/about\<close> goes to \<^verbatim>\<open>/fr/about\<close>.
\<close>

theorem locale_change_navigates:
  "current (onLocaleChange getLocalizedUrl P Q L' h) = getLocalizedUrl (P @ Q) L' \<and>
   back_entries (onLocaleChange getLocalizedUrl P Q L' h) = back_entries h \<and>
   current (onLocaleChange localize (''/'' @ resolved_locale l @ ''/'' @ r) Q L' h) =
     ''/'' @ resolved_locale L' @ ''/'' @ r @ Q \<and>
   current (onLocaleChange localize ''/en/about'' [] ''fr'' h) = ''/fr/about'' \<and>
   current (onLocaleChange localize ''/en/about'' ''?page=2'' ''fr'' h) = ''/fr/about?page=2''"
proof -
  have general: "current (onLocaleChange g p q x h) = g (p @ q) x" for g p q x
    by (simp add: onLocaleChange_def location_replace_def history_navigate_def)
  have "localize ((''/'' @ resolved_locale l @ ''/'' @ r) @ Q) L' =
          ''/'' @ resolved_locale L' @ ''/'' @ r @ Q"
    using localize_prefixed [of l "r @ Q" L'] by simp
  moreover have "localize ''/en/about'' ''fr'' = ''/fr/about''"
    by (simp add: localize_def locales_def resolved_locale_def external_pattern_def)
  moreover have "localize ''/en/about?page=2'' ''fr'' = ''/fr/about?page=2''"
    by (simp add: localize_def locales_def resolved_locale_def external_pattern_def)
  ultimately show ?thesis
    by (simp add: general)
       (simp add: onLocaleChange_def location_replace_def history_navigate_def)
qed

lemma find_mapped_option:
  fixes f :: "string \<Rightarrow> option_element"
  assumes "l \<in> set xs" and "\<And>x. value (f x) = x" and "value (f l) = v"
  shows "List.find (\<lambda>opt. value opt = v) (map f xs) = Some (f l)"
  using assms by (induction xs) auto

text \<open>
  Claim C8. Whatever the locales, the active locale and the texts are, the rendered
  select has as many options as there are available locales, its value is the active
  locale, and an option whose value is the active locale is the selected one.
\<close>

theorem switcher_options:
  "length (select_options (LocaleSwitcher getHTMLTextDir getLocaleName label availableLocales locale))
     = length availableLocales \<and>
   select_value (LocaleSwitcher getHTMLTextDir getLocaleName label availableLocales locale) = locale \<and>
   (\<forall>opt \<in> set (select_options
                  (LocaleSwitcher getHTMLTextDir getLocaleName label availableLocales locale)).
      value opt = locale \<longrightarrow>
      selected_option (LocaleSwitcher getHTMLTextDir getLocaleName label availableLocales locale)
        = Some opt)"
  by (auto simp add: LocaleSwitcher_def selected_option_def intro!: find_mapped_option)

text \<open>The witness: the three locales of the documented configuration, with \<^verbatim>\<open>fr\<close> active.\<close>

theorem switcher_options_witness:
  "length (select_options (LocaleSwitcher (\<lambda>l. ''ltr'') (\<lambda>l shown. l) ''Language''
       [''en'', ''fr'', ''es''] ''fr'')) = 3 \<and>
   selected_option (LocaleSwitcher (\<lambda>l. ''ltr'') (\<lambda>l shown. l) ''Language''
       [''en'', ''fr'', ''es''] ''fr'') =
     Some \<lparr>dir = ''ltr'', key = ''fr'', lang = ''fr'', value = ''fr'', children = ''fr (fr)''\<rparr>"
  using switcher_options [of "\<lambda>l. ''ltr''" "\<lambda>l shown. l" "''Language''"
      "[''en'', ''fr'', ''es'']" "''fr''"]
  by (simp add: LocaleSwitcher_def)

end
